theory Spec2Isabelle
  imports Complex_Main
begin

section \<open>Values of the rendering layer\<close>

text \<open>
  The repository holds two versions of the x-axis component: \<^verbatim>\<open>XAxis.tsx\<close> and the
  unnamed file \<^verbatim>\<open>part_000\<close>. Definitions taken from \<^verbatim>\<open>part_000\<close> carry the
  suffix \<open>_0\<close>; a definition without suffix that is not marked otherwise is text that is
  the same in both files.

  A JavaScript \<^verbatim>\<open>number\<close> is modelled as a \<^typ>\<open>real\<close>: arithmetic is exact, and NaN
  and the infinities are not represented.
\<close>

type_synonym SkPoint = "real \<times> real"

definition vec :: "real \<Rightarrow> real \<Rightarrow> SkPoint" where
  "vec a b = (a, b)"

text \<open>
  \<^verbatim>\<open>useMemo\<close> compares its dependencies with \<^verbatim>\<open>Object.is\<close>: numbers and strings by
  value, objects and functions by identity. An object is therefore a pair of its identity
  and its content. \<open>Given\<close> identities belong to objects passed in by the caller, \<open>Made\<close>
  identities to objects the component creates while rendering.
\<close>

datatype ref = Given nat | Made nat

type_synonym 'a obj = "ref \<times> 'a"

text \<open>A d3 scale: the call \<^verbatim>\<open>scale(v)\<close>, \<^verbatim>\<open>scale.ticks(count)\<close> and \<^verbatim>\<open>scale.domain()\<close>.\<close>

record Scale =
  call :: "real \<Rightarrow> real"
  ticks :: "real \<Rightarrow> real list"
  domain :: "real list"

text \<open>A Skia font; \<^verbatim>\<open>getGlyphWidths\<close> is called with \<^verbatim>\<open>?.(\<close>, so it may be absent.\<close>

record SkFont =
  getSize :: real
  getGlyphIDs :: "string \<Rightarrow> nat list"
  getGlyphWidths :: "(nat list \<Rightarrow> real list) option"

record ChartBounds =
  left :: real
  right :: real
  bottom :: real

datatype AxisSide = Top | Bottom
datatype YAxisSide = Left | Right
datatype LabelPosition = Inset | Outset

text \<open>A datum of the input data: a number, a string, or \<^verbatim>\<open>undefined\<close>.\<close>

datatype InputDatum = Num real | Str string | Undefined

text \<open>A d3 \<^verbatim>\<open>ZoomTransform(k, x, y)\<close> and a Skia \<^verbatim>\<open>Matrix4\<close> (16 numbers).\<close>

record ZoomTransform =
  zoom_k :: real
  zoom_x :: real
  zoom_y :: real

type_synonym Matrix4 = "real list"

type_synonym PathEffect = string

text \<open>
  \<^verbatim>\<open>XAxisProps & { matrix }\<close>, as the two components destructure it. An optional
  property is an \<open>option\<close>; \<open>None\<close> is \<^verbatim>\<open>undefined\<close>. The \<^verbatim>\<open>matrix\<close> is a shared value:
  its content here is its \<^verbatim>\<open>.value\<close> at the time of the render.
\<close>

record XAxisProps =
  xScale :: "Scale obj"
  yScale :: "Scale obj"
  tickCount :: "real option"
  tickValues :: "real list obj option"
  font :: "SkFont obj option"
  enableRescaling :: "bool option"
  zoom :: "ZoomTransform option"
  matrix :: "Matrix4 obj option"
  axisSide :: "AxisSide option"
  yAxisSide :: "YAxisSide option"
  labelPosition :: "LabelPosition option"
  labelRotate :: "real option"
  labelOffset :: "real option"
  labelColor :: "string option"
  lineWidth :: "real option"
  lineColor :: "string option"
  formatXLabel :: "(InputDatum \<Rightarrow> string) obj option"
  ix :: "InputDatum list obj option"
  isNumericalData :: "bool option"
  linePathEffect :: "PathEffect option"
  chartBounds :: "ChartBounds obj"

text \<open>The props of \<^verbatim>\<open>XAxle\<close>: \<^verbatim>\<open>Omit<XAxisProps, "tickCount"> & { tick, y1, y2, fontSize, matrix }\<close>.\<close>

record XAxleProps = XAxisProps +
  tick :: real
  y1 :: real
  y2 :: real
  fontSize :: real

text \<open>
  What the two files import and \<^verbatim>\<open>src/\<close> does not hold, taken as parameters:
  \<^verbatim>\<open>getOffsetFromAngle\<close> and \<^verbatim>\<open>downsampleTicks\<close> of the repository's utilities,
  d3's \<^verbatim>\<open>ZoomTransform.rescaleX\<close>, React Native's \<^verbatim>\<open>StyleSheet.hairlineWidth\<close>, and
  JavaScript's conversion of a number to a string. \<^verbatim>\<open>downsampleTicks\<close> receives an
  unused identity as third argument, so that it may return a new array (with that
  identity) or the array it was given.
\<close>

record Imports =
  getOffsetFromAngle :: "real \<Rightarrow> real"
  downsampleTicks :: "real list obj \<Rightarrow> real \<Rightarrow> ref \<Rightarrow> real list obj"
  rescaleX :: "ZoomTransform \<Rightarrow> Scale \<Rightarrow> Scale"
  hairlineWidth :: real
  numberToString :: "real \<Rightarrow> string"

text \<open>
  Modelled from the spec: \<^verbatim>\<open>DEFAULT_TICK_COUNT\<close> is imported from
  \<^verbatim>\<open>utils/tickHelpers\<close>, which is not under \<^verbatim>\<open>src/\<close>; its value 5 is the one the
  specification's claim gives (and the one \<^verbatim>\<open>XAxisDefaults.tickCount\<close> has).
\<close>

definition DEFAULT_TICK_COUNT :: real where
  "DEFAULT_TICK_COUNT = 5"

text \<open>\<^verbatim>\<open>Math.PI\<close>: the double nearest to \<open>\<pi>\<close>.\<close>

definition Math_PI :: real where
  "Math_PI = 884279719003555 / 281474976710656"

text \<open>A destructuring default \<^verbatim>\<open>{ name = d }\<close>: \<open>d\<close> replaces \<^verbatim>\<open>undefined\<close>.\<close>

fun or_default :: "'a option \<Rightarrow> 'a \<Rightarrow> 'a" where
  "or_default None d = d"
| "or_default (Some v) d = v"

text \<open>The truth value of an optional boolean: \<^verbatim>\<open>undefined\<close> is falsy.\<close>

fun truthy :: "bool option \<Rightarrow> bool" where
  "truthy None = False"
| "truthy (Some b) = b"

section \<open>The per-tick leaf \<^verbatim>\<open>XAxle\<close>\<close>

text \<open>
  \<^verbatim>\<open>ix[tick]\<close>: a JavaScript array read. The element when \<open>tick\<close> is an integer index
  inside the array, \<^verbatim>\<open>undefined\<close> for every other number; the read never throws.
\<close>

definition array_get :: "InputDatum list \<Rightarrow> real \<Rightarrow> InputDatum" where
  "array_get xs t =
     (if 0 \<le> t \<and> t < real (length xs) \<and> real_of_int \<lfloor>t\<rfloor> = t
      then xs ! nat \<lfloor>t\<rfloor> else Undefined)"

text \<open>\<^verbatim>\<open>String(label)\<close>, the default of \<^verbatim>\<open>formatXLabel\<close>.\<close>

fun String :: "Imports \<Rightarrow> InputDatum \<Rightarrow> string" where
  "String L (Num r) = numberToString L r"
| "String L (Str s) = s"
| "String L Undefined = ''undefined''"

text \<open>\<^verbatim>\<open>const val = isNumericalData ? tick : ix[tick]\<close>, with the default \<^verbatim>\<open>ix = []\<close>.\<close>

definition val :: "XAxleProps \<Rightarrow> InputDatum" where
  "val p =
     (if truthy (isNumericalData p) then Num (tick p)
      else array_get (or_default (map_option snd (ix p)) []) (tick p))"

definition contentX :: "Imports \<Rightarrow> XAxleProps \<Rightarrow> string" where
  "contentX L p = or_default (map_option snd (formatXLabel p)) (String L) (val p)"

text \<open>
  \<^verbatim>\<open>font?.getGlyphWidths?.(font.getGlyphIDs(contentX)).reduce((sum, value) => sum + value, 0) ?? 0\<close>
\<close>

definition labelWidth :: "Imports \<Rightarrow> XAxleProps \<Rightarrow> real" where
  "labelWidth L p =
     (case font p of
        None \<Rightarrow> 0
      | Some f \<Rightarrow>
          (case getGlyphWidths (snd f) of
             None \<Rightarrow> 0
           | Some widths \<Rightarrow>
               foldl (\<lambda>sum value. sum + value) 0
                 (widths (getGlyphIDs (snd f) (contentX L p)))))"

definition labelX :: "Imports \<Rightarrow> XAxleProps \<Rightarrow> real" where
  "labelX L p = call (snd (xScale p)) (tick p) - labelWidth L p / 2"

text \<open>\<^verbatim>\<open>canFitLabelContent\<close> of \<^verbatim>\<open>XAxis.tsx\<close>, with the default \<^verbatim>\<open>yAxisSide = "left"\<close>.\<close>

definition canFitLabelContent :: "Imports \<Rightarrow> XAxleProps \<Rightarrow> bool" where
  "canFitLabelContent L p =
     (call (snd (xScale p)) (tick p) \<ge> left (snd (chartBounds p)) \<and>
      call (snd (xScale p)) (tick p) \<le> right (snd (chartBounds p)) \<and>
      (if or_default (yAxisSide p) Left = Left
       then labelX L p + labelWidth L p < right (snd (chartBounds p))
       else left (snd (chartBounds p)) < labelX L p))"

text \<open>
  \<^verbatim>\<open>canFitLabelContent\<close> of \<^verbatim>\<open>part_000\<close>: the test is commented out and the constant
  is \<^verbatim>\<open>true\<close>.
\<close>

definition canFitLabelContent_0 :: "Imports \<Rightarrow> XAxleProps \<Rightarrow> bool" where
  "canFitLabelContent_0 L p = True"

definition labelY :: "XAxleProps \<Rightarrow> real" where
  "labelY p =
     (if or_default (axisSide p) Bottom = Bottom \<and> or_default (labelPosition p) Outset = Outset
      then bottom (snd (chartBounds p)) + or_default (labelOffset p) 2 + fontSize p
      else if or_default (axisSide p) Bottom = Bottom \<and> or_default (labelPosition p) Outset = Inset
      then call (snd (yScale p)) (y2 p) - or_default (labelOffset p) 2
      else if or_default (axisSide p) Bottom = Top \<and> or_default (labelPosition p) Outset = Outset
      then call (snd (yScale p)) (y1 p) - or_default (labelOffset p) 2
      else call (snd (yScale p)) (y1 p) + fontSize p + or_default (labelOffset p) 2)"

text \<open>
  The pair \<^verbatim>\<open>{ origin, rotateOffset }\<close>. \<^verbatim>\<open>!labelRotate\<close> holds when \<^verbatim>\<open>labelRotate\<close> is
  \<^verbatim>\<open>undefined\<close> or \<open>0\<close>.
\<close>

definition origin_rotateOffset :: "Imports \<Rightarrow> XAxleProps \<Rightarrow> SkPoint option \<times> real" where
  "origin_rotateOffset L p =
     (case labelRotate p of
        None \<Rightarrow> (None, 0)
      | Some r \<Rightarrow>
          if r = 0 then (None, 0)
          else if or_default (axisSide p) Bottom = Bottom \<and>
                  or_default (labelPosition p) Outset = Outset
          then (Some (vec (labelX L p + labelWidth L p / 2) (labelY p)),
                \<bar>(labelWidth L p / 2) * getOffsetFromAngle L r\<bar>)
          else if or_default (axisSide p) Bottom = Bottom \<and>
                  or_default (labelPosition p) Outset = Inset
          then (Some (vec (labelX L p + labelWidth L p / 2) (labelY p)),
                - \<bar>(labelWidth L p / 2) * getOffsetFromAngle L r\<bar>)
          else if or_default (axisSide p) Bottom = Top \<and>
                  or_default (labelPosition p) Outset = Inset
          then (Some (vec (labelX L p + labelWidth L p / 2) (labelY p - fontSize p / 4)),
                \<bar>(labelWidth L p / 2) * getOffsetFromAngle L r\<bar>)
          else (Some (vec (labelX L p + labelWidth L p / 2) (labelY p - fontSize p / 4)),
                - \<bar>(labelWidth L p / 2) * getOffsetFromAngle L r\<bar>))"

definition origin :: "Imports \<Rightarrow> XAxleProps \<Rightarrow> SkPoint option" where
  "origin L p = fst (origin_rotateOffset L p)"

definition rotateOffset :: "Imports \<Rightarrow> XAxleProps \<Rightarrow> real" where
  "rotateOffset L p = snd (origin_rotateOffset L p)"


text \<open>
  What \<^verbatim>\<open>XAxle\<close> returns: a fragment of an optional \<^verbatim>\<open>Points\<close> group (the gridline) and
  an optional \<^verbatim>\<open>Text\<close> group (the label). The constant attributes \<^verbatim>\<open>mode="polygon"\<close> and
  \<^verbatim>\<open>style="stroke"\<close> are left out.
\<close>

record PointsNode =
  p_points :: "SkPoint list"
  p_color :: string
  p_strokeWidth :: real
  p_children :: "PathEffect option"
  p_matrix :: "Matrix4 obj option"

record TextNode =
  t_translateY :: real
  t_rotate :: real
  t_origin :: "SkPoint option"
  t_color :: string
  t_text :: string
  t_font :: "SkFont obj"
  t_y :: real
  t_x :: real
  t_matrix :: "Matrix4 obj option"

record Fragment =
  line :: "PointsNode option"
  label :: "TextNode option"

text \<open>
  The \<^verbatim>\<open>return\<close> of \<^verbatim>\<open>XAxle\<close>, the same JSX in both files; \<open>canFit\<close>, \<open>p1\<close> and \<open>p2\<close> are
  the constants of these names. \<^verbatim>\<open>font && labelWidth && canFitLabelContent\<close> is truthy
  when the font is there, the width is not \<open>0\<close> and \<open>canFit\<close> holds.
\<close>

definition XAxle_return :: "Imports \<Rightarrow> XAxleProps \<Rightarrow> bool \<Rightarrow> SkPoint \<Rightarrow> SkPoint \<Rightarrow> Fragment" where
  "XAxle_return L p canFit p1 p2 =
     \<lparr>line =
        (if or_default (lineWidth p) (hairlineWidth L) > 0
         then Some \<lparr>p_points = [p1, p2],
                    p_color = or_default (lineColor p) ''hsla(0, 0%, 0%, 0.25)'',
                    p_strokeWidth = or_default (lineWidth p) (hairlineWidth L),
                    p_children = linePathEffect p,
                    p_matrix = matrix p\<rparr>
         else None),
      label =
        (case font p of
           None \<Rightarrow> None
         | Some f \<Rightarrow>
             if labelWidth L p \<noteq> 0 \<and> canFit
             then Some \<lparr>t_translateY = rotateOffset L p,
                        t_rotate = (Math_PI / 180) * or_default (labelRotate p) 0,
                        t_origin = origin L p,
                        t_color = or_default (labelColor p) ''#000000'',
                        t_text = contentX L p,
                        t_font = f,
                        t_y = labelY p,
                        t_x = labelX L p,
                        t_matrix = matrix p\<rparr>
             else None)\<rparr>"

subsection \<open>Hooks\<close>

text \<open>
  \<^verbatim>\<open>useMemo(f, deps)\<close>: the cell of the hook holds the dependencies and the value of the
  last evaluation of \<open>f\<close>. The value is computed again when the cell is empty (the first
  render of the component instance) or a dependency has changed, and is the cached one
  otherwise. The result is the value and the cell after the render.
\<close>

definition useMemo :: "('d \<times> 'v) option \<Rightarrow> (unit \<Rightarrow> 'v) \<Rightarrow> 'd \<Rightarrow> 'v \<times> ('d \<times> 'v) option" where
  "useMemo cell f deps =
     (case cell of
        None \<Rightarrow> (f (), Some (deps, f ()))
      | Some (d, v) \<Rightarrow> if d = deps then (v, cell) else (f (), Some (deps, f ())))"

text \<open>The hook state of one \<^verbatim>\<open>XAxle\<close> instance: the cells of \<open>p1\<close> and \<open>p2\<close>.\<close>

record 'd XAxleState =
  p1_memo :: "('d \<times> SkPoint) option"
  p2_memo :: "('d \<times> SkPoint) option"

definition mounted :: "'d XAxleState" where
  "mounted = \<lparr>p1_memo = None, p2_memo = None\<rparr>"

text \<open>
  \<^verbatim>\<open>XAxle\<close> of \<^verbatim>\<open>XAxis.tsx\<close>:
  \<^verbatim>\<open>const p1 = useMemo(() => vec(xScale(tick), yScale(y2)), [tick])\<close> and
  \<^verbatim>\<open>const p2 = useMemo(() => vec(xScale(tick), yScale(y1)), [tick])\<close>.
\<close>

definition XAxle :: "Imports \<Rightarrow> XAxleProps \<Rightarrow> real XAxleState \<Rightarrow> Fragment \<times> real XAxleState" where
  "XAxle L p st =
     (let (p1, m1) = useMemo (p1_memo st)
            (\<lambda>_. vec (call (snd (xScale p)) (tick p)) (call (snd (yScale p)) (y2 p)))
            (tick p);
          (p2, m2) = useMemo (p2_memo st)
            (\<lambda>_. vec (call (snd (xScale p)) (tick p)) (call (snd (yScale p)) (y1 p)))
            (tick p)
      in (XAxle_return L p (canFitLabelContent L p) p1 p2, \<lparr>p1_memo = m1, p2_memo = m2\<rparr>))"

text \<open>
  \<^verbatim>\<open>XAxle\<close> of \<^verbatim>\<open>part_000\<close>: the dependencies are \<^verbatim>\<open>[tick, xScale, y2, yScale]\<close> and
  \<^verbatim>\<open>[tick, xScale, y1, yScale]\<close>; the scales are compared by identity.
\<close>

type_synonym deps_0 = "real \<times> ref \<times> real \<times> ref"

definition XAxle_0 :: "Imports \<Rightarrow> XAxleProps \<Rightarrow> deps_0 XAxleState \<Rightarrow> Fragment \<times> deps_0 XAxleState" where
  "XAxle_0 L p st =
     (let (p1, m1) = useMemo (p1_memo st)
            (\<lambda>_. vec (call (snd (xScale p)) (tick p)) (call (snd (yScale p)) (y2 p)))
            (tick p, fst (xScale p), y2 p, fst (yScale p));
          (p2, m2) = useMemo (p2_memo st)
            (\<lambda>_. vec (call (snd (xScale p)) (tick p)) (call (snd (yScale p)) (y1 p)))
            (tick p, fst (xScale p), y1 p, fst (yScale p))
      in (XAxle_return L p (canFitLabelContent_0 L p) p1 p2, \<lparr>p1_memo = m1, p2_memo = m2\<rparr>))"

section \<open>The axis container \<^verbatim>\<open>XAxis\<close>\<close>

text \<open>\<^verbatim>\<open>const [y1 = 0, y2 = 0] = yScale.domain()\<close> and \<^verbatim>\<open>font?.getSize() ?? 0\<close>.\<close>

definition XAxis_y1 :: "XAxisProps \<Rightarrow> real" where
  "XAxis_y1 P = (case domain (snd (yScale P)) of [] \<Rightarrow> 0 | a # _ \<Rightarrow> a)"

definition XAxis_y2 :: "XAxisProps \<Rightarrow> real" where
  "XAxis_y2 P = (case domain (snd (yScale P)) of a # b # _ \<Rightarrow> b | _ \<Rightarrow> 0)"

definition XAxis_fontSize :: "XAxisProps \<Rightarrow> real" where
  "XAxis_fontSize P = (case font P of None \<Rightarrow> 0 | Some f \<Rightarrow> getSize (snd f))"

text \<open>
  The props an \<^verbatim>\<open>XAxle\<close> element is given: the remaining props of the axis, and
  \<open>font\<close>, \<open>tick\<close>, \<open>xScale\<close>, \<open>yScale\<close>, \<open>y1\<close>, \<open>y2\<close>, \<open>fontSize\<close> and \<open>matrix\<close>.
  \<open>xs\<close> is the constant \<^verbatim>\<open>xScale\<close> of the container.
\<close>

definition XAxle_props :: "XAxisProps \<Rightarrow> Scale obj \<Rightarrow> real \<Rightarrow> XAxleProps" where
  "XAxle_props P xs t =
     \<lparr>xScale = xs, yScale = yScale P, tickCount = None, tickValues = None, font = font P,
      enableRescaling = None, zoom = None, matrix = matrix P, axisSide = axisSide P,
      yAxisSide = yAxisSide P, labelPosition = labelPosition P, labelRotate = labelRotate P,
      labelOffset = labelOffset P, labelColor = labelColor P, lineWidth = lineWidth P,
      lineColor = lineColor P, formatXLabel = formatXLabel P, ix = ix P,
      isNumericalData = isNumericalData P, linePathEffect = linePathEffect P,
      chartBounds = chartBounds P,
      tick = t, y1 = XAxis_y1 P, y2 = XAxis_y2 P, fontSize = XAxis_fontSize P\<rparr>"

text \<open>
  React renders the elements in order. An element is keyed \<^verbatim>\<open>x-tick-${tick}\<close>: the
  instance of the same key in the previous render keeps its hook state, an element
  with a new key is mounted, and an instance whose key is gone is dropped.
\<close>

fun render_axles ::
  "(XAxleProps \<Rightarrow> 's \<Rightarrow> Fragment \<times> 's) \<Rightarrow> 's \<Rightarrow> (real \<Rightarrow> 's option) \<Rightarrow> XAxleProps list
     \<Rightarrow> Fragment list \<times> (real \<Rightarrow> 's option)" where
  "render_axles child fresh old [] = ([], Map.empty)"
| "render_axles child fresh old (p # ps) =
     (let (fr, s) = child p (or_default (old (tick p)) fresh);
          (frs, m) = render_axles child fresh old ps
      in (fr # frs, m(tick p \<mapsto> s)))"


subsection \<open>\<^verbatim>\<open>XAxis\<close> of \<^verbatim>\<open>XAxis.tsx\<close>\<close>

text \<open>
  The hook state of the container: the cell of \<^verbatim>\<open>xAxisNodes\<close>, the hook states of its
  \<^verbatim>\<open>XAxle\<close> instances by key, and the next unused object identity.
\<close>

record XAxisState =
  xAxisNodes_memo :: "((ref \<times> real \<times> real \<times> real) \<times> XAxleProps list) option"
  axles :: "real \<Rightarrow> real XAxleState option"
  unused :: nat

definition XAxis_mounted :: XAxisState where
  "XAxis_mounted = \<lparr>xAxisNodes_memo = None, axles = Map.empty, unused = 0\<rparr>"

text \<open>
  \<^verbatim>\<open>const xScale = zoom ? zoom.rescaleX(xScaleProp) : xScaleProp\<close>; \<^verbatim>\<open>rescaleX\<close> returns a
  new scale, which gets the identity \<open>Made n\<close>.
\<close>

definition XAxis_xScale :: "Imports \<Rightarrow> XAxisProps \<Rightarrow> nat \<Rightarrow> Scale obj" where
  "XAxis_xScale L P n =
     (case zoom P of
        Some z \<Rightarrow> (Made n, rescaleX L z (snd (xScale P)))
      | None \<Rightarrow> xScale P)"

text \<open>
  \<^verbatim>\<open>xTicksNormalized\<close>, with the default \<^verbatim>\<open>tickCount = DEFAULT_TICK_COUNT\<close>; the array
  \<^verbatim>\<open>ticks\<close> returns is a new one.
\<close>

definition xTicksNormalized :: "Imports \<Rightarrow> XAxisProps \<Rightarrow> nat \<Rightarrow> real list obj" where
  "xTicksNormalized L P n =
     (case tickValues P of
        Some tv \<Rightarrow> downsampleTicks L tv (or_default (tickCount P) DEFAULT_TICK_COUNT) (Made (Suc n))
      | None \<Rightarrow>
          if truthy (enableRescaling P)
          then (Made (Suc n),
                ticks (snd (XAxis_xScale L P n)) (or_default (tickCount P) DEFAULT_TICK_COUNT))
          else (Made (Suc n),
                ticks (snd (xScale P)) (or_default (tickCount P) DEFAULT_TICK_COUNT)))"

text \<open>
  One render of \<^verbatim>\<open>XAxis\<close>, its \<^verbatim>\<open>XAxle\<close> children included: the fragments drawn and
  the hook state after the render. The dependencies of \<^verbatim>\<open>xAxisNodes\<close> are
  \<^verbatim>\<open>[xTicksNormalized, fontSize, y1, y2]\<close>.
\<close>

definition XAxis :: "Imports \<Rightarrow> XAxisProps \<Rightarrow> XAxisState \<Rightarrow> Fragment list \<times> XAxisState" where
  "XAxis L P st =
     (let xS = XAxis_xScale L P (unused st);
          tks = xTicksNormalized L P (unused st);
          (xAxisNodes, memo) = useMemo (xAxisNodes_memo st)
            (\<lambda>_. map (\<lambda>t. XAxle_props P xS t) (snd tks))
            (fst tks, XAxis_fontSize P, XAxis_y1 P, XAxis_y2 P);
          (frags, ax) = render_axles (XAxle L) mounted (axles st) xAxisNodes
      in (frags, \<lparr>xAxisNodes_memo = memo, axles = ax, unused = unused st + 2\<rparr>))"

subsection \<open>\<^verbatim>\<open>XAxis\<close> of \<^verbatim>\<open>part_000\<close>\<close>

text \<open>
  The dependencies of \<^verbatim>\<open>xAxisNodes\<close> in \<^verbatim>\<open>part_000\<close>, in the order of the source:
  \<open>xTicksNormalized\<close>, \<open>font\<close>, \<open>xScale\<close>, \<open>y1\<close>, \<open>y2\<close>, \<open>fontSize\<close>, \<open>matrix\<close>, \<open>axisSide\<close>,
  \<open>formatXLabel\<close>, \<open>labelColor\<close>, \<open>labelOffset\<close>, \<open>labelPosition\<close>, \<open>lineColor\<close>,
  \<open>lineWidth\<close>, \<open>yAxisSide\<close>, \<open>isNumericalData\<close>, \<open>chartBounds\<close>, \<open>ix\<close>.
\<close>

type_synonym nodes_deps_0 =
  "ref \<times> ref option \<times> ref \<times> real \<times> real \<times> real \<times> ref option \<times> AxisSide option \<times>
   ref option \<times> string option \<times> real option \<times> LabelPosition option \<times> string option \<times>
   real option \<times> YAxisSide option \<times> bool option \<times> ref \<times> ref option"

text \<open>
  The hook state: the cell of \<^verbatim>\<open>xTicksNormalized\<close>, \<^verbatim>\<open>matrixRef.current\<close> (\<open>None\<close> is
  \<^verbatim>\<open>null\<close> or \<^verbatim>\<open>undefined\<close>), the cells of \<^verbatim>\<open>xScale\<close> and \<^verbatim>\<open>xAxisNodes\<close>, the hook states
  of the \<^verbatim>\<open>XAxle\<close> instances, and the next unused object identity.
\<close>

record XAxisState_0 =
  xTicksNormalized_memo :: "((ref option \<times> real \<times> ref) \<times> real list obj) option"
  matrixRef :: "Matrix4 option"
  xScale_memo :: "((ref \<times> ref) \<times> Scale obj) option"
  xAxisNodes_memo_0 :: "(nodes_deps_0 \<times> XAxleProps list) option"
  axles_0 :: "real \<Rightarrow> deps_0 XAxleState option"
  unused_0 :: nat

text \<open>The state of a newly mounted component: \<^verbatim>\<open>useRef(null)\<close> and empty cells.\<close>

definition XAxis_mounted_0 :: XAxisState_0 where
  "XAxis_mounted_0 =
     \<lparr>xTicksNormalized_memo = None, matrixRef = None, xScale_memo = None,
      xAxisNodes_memo_0 = None, axles_0 = Map.empty, unused_0 = 0\<rparr>"

text \<open>The function memoised as \<^verbatim>\<open>xTicksNormalized\<close>; the rescaling branch is commented out.\<close>

definition xTicksNormalized_0 :: "Imports \<Rightarrow> XAxisProps \<Rightarrow> nat \<Rightarrow> real list obj" where
  "xTicksNormalized_0 L P n =
     (case tickValues P of
        Some tv \<Rightarrow> downsampleTicks L tv (or_default (tickCount P) DEFAULT_TICK_COUNT) (Made n)
      | None \<Rightarrow> (Made n, ticks (snd (xScale P)) (or_default (tickCount P) DEFAULT_TICK_COUNT)))"

text \<open>
  The function memoised as \<^verbatim>\<open>xScale\<close>: \<^verbatim>\<open>matrixRef.current ? new ZoomTransform(
  matrixRef.current[0], matrixRef.current[3], matrixRef.current[7]).rescaleX(xScaleProp)
  : xScaleProp\<close>. A \<^verbatim>\<open>Matrix4\<close> has 16 entries, so the three reads are in range.
\<close>

definition XAxis_xScale_0 :: "Imports \<Rightarrow> XAxisProps \<Rightarrow> Matrix4 option \<Rightarrow> nat \<Rightarrow> Scale obj" where
  "XAxis_xScale_0 L P current n =
     (case current of
        Some m \<Rightarrow>
          (Made n, rescaleX L \<lparr>zoom_k = m ! 0, zoom_x = m ! 3, zoom_y = m ! 7\<rparr> (snd (xScale P)))
      | None \<Rightarrow> xScale P)"

text \<open>
  One render of \<^verbatim>\<open>XAxis\<close>, children included. The dependencies of \<^verbatim>\<open>xTicksNormalized\<close>
  are \<^verbatim>\<open>[tickValues, tickCount, xScaleProp]\<close>, those of \<^verbatim>\<open>xScale\<close> are
  \<^verbatim>\<open>[xScaleProp, xTicksNormalized]\<close>. The props \<^verbatim>\<open>zoom\<close> and \<^verbatim>\<open>enableRescaling\<close> are not
  read: their destructuring is commented out.
\<close>

definition XAxis_0 :: "Imports \<Rightarrow> XAxisProps \<Rightarrow> XAxisState_0 \<Rightarrow> Fragment list \<times> XAxisState_0" where
  "XAxis_0 L P st =
     (let (tks, m1) = useMemo (xTicksNormalized_memo st)
            (\<lambda>_. xTicksNormalized_0 L P (unused_0 st))
            (map_option fst (tickValues P), or_default (tickCount P) DEFAULT_TICK_COUNT,
             fst (xScale P));
          (xS, m2) = useMemo (xScale_memo st)
            (\<lambda>_. XAxis_xScale_0 L P (matrixRef st) (Suc (unused_0 st)))
            (fst (xScale P), fst tks);
          (xAxisNodes, m3) = useMemo (xAxisNodes_memo_0 st)
            (\<lambda>_. map (\<lambda>t. XAxle_props P xS t) (snd tks))
            (fst tks, map_option fst (font P), fst xS, XAxis_y1 P, XAxis_y2 P,
             XAxis_fontSize P, map_option fst (matrix P), axisSide P,
             map_option fst (formatXLabel P), labelColor P, labelOffset P, labelPosition P,
             lineColor P, lineWidth P, yAxisSide P, isNumericalData P,
             fst (chartBounds P), map_option fst (ix P));
          (frags, ax) = render_axles (XAxle_0 L) mounted (axles_0 st) xAxisNodes
      in (frags,
          \<lparr>xTicksNormalized_memo = m1, matrixRef = matrixRef st, xScale_memo = m2,
           xAxisNodes_memo_0 = m3, axles_0 = ax, unused_0 = unused_0 st + 2\<rparr>))"

text \<open>
  \<^verbatim>\<open>useAnimatedReaction(() => matrix?.value, () => (matrixRef.current = matrix?.value))\<close>:
  when the reaction runs, between two renders, it stores the value of the matrix.
\<close>

definition animatedReaction :: "XAxisProps \<Rightarrow> XAxisState_0 \<Rightarrow> XAxisState_0" where
  "animatedReaction P st = st\<lparr>matrixRef := map_option snd (matrix P)\<rparr>"




section \<open>Sample inputs\<close>

text \<open>
  Concrete inputs for the instances below. The x scale is
  \<^verbatim>\<open>scaleLinear().domain([0, 10]).range([0, 100])\<close>, whose \<^verbatim>\<open>ticks(5)\<close> are
  \<open>0, 2, \<dots>, 10\<close>; the y scale is \<^verbatim>\<open>scaleLinear().domain([0, 100]).range([200, 0])\<close>. Every
  glyph of the font is 6 wide. The sample \<^verbatim>\<open>rescaleX\<close> is d3's on a linear scale through
  the origin under a transform with \<open>x = 0\<close>; the sample \<^verbatim>\<open>downsampleTicks\<close> returns the
  array it is given when that is short enough and a new, shorter array otherwise.
\<close>

definition sample_xScale :: "Scale obj" where
  "sample_xScale =
     (Given 1, \<lparr>call = (\<lambda>v. 10 * v), ticks = (\<lambda>c. [0, 2, 4, 6, 8, 10]), domain = [0, 10]\<rparr>)"

definition sample_yScale :: "Scale obj" where
  "sample_yScale =
     (Given 2, \<lparr>call = (\<lambda>v. 200 - 2 * v), ticks = (\<lambda>c. [0, 20, 40, 60, 80, 100]),
               domain = [0, 100]\<rparr>)"

definition sample_font :: "SkFont obj" where
  "sample_font =
     (Given 3, \<lparr>getSize = 12, getGlyphIDs = map of_char,
               getGlyphWidths = Some (map (\<lambda>g. 6))\<rparr>)"

definition sample_bounds :: "ChartBounds obj" where
  "sample_bounds = (Given 4, \<lparr>left = 0, right = 100, bottom = 200\<rparr>)"

definition sample_zoom :: ZoomTransform where
  "sample_zoom = \<lparr>zoom_k = 2, zoom_x = 0, zoom_y = 0\<rparr>"

definition sample_matrix :: "Matrix4 obj" where
  "sample_matrix = (Given 5, [2, 0, 0, 0, 0, 1, 0, 0, 0, 0, 1, 0, 0, 0, 0, 1])"

definition sample_lib :: Imports where
  "sample_lib =
     \<lparr>getOffsetFromAngle = (\<lambda>a. a / 90),
      downsampleTicks =
        (\<lambda>tv c r. if real (length (snd tv)) \<le> c then tv else (r, take (nat \<lfloor>c\<rfloor>) (snd tv))),
      rescaleX =
        (\<lambda>z s. \<lparr>call = (\<lambda>v. zoom_k z * call s v + zoom_x z),
                 ticks = (\<lambda>c. map (\<lambda>t. t / zoom_k z) (ticks s c)),
                 domain = map (\<lambda>d. d / zoom_k z) (domain s)\<rparr>),
      hairlineWidth = 1 / 2,
      numberToString =
        (\<lambda>r. if r = 0 then ''0'' else if r = 1 then ''1'' else if r = 2 then ''2''
              else if r = 3 then ''3'' else if r = 4 then ''4'' else if r = 5 then ''5''
              else if r = 6 then ''6'' else if r = 8 then ''8'' else if r = 10 then ''10''
              else ''?'')\<rparr>"

definition sample_props :: XAxisProps where
  "sample_props =
     \<lparr>xScale = sample_xScale, yScale = sample_yScale, tickCount = None, tickValues = None,
      font = Some sample_font, enableRescaling = None, zoom = None, matrix = None,
      axisSide = None, yAxisSide = None, labelPosition = None, labelRotate = None,
      labelOffset = None, labelColor = None, lineWidth = None, lineColor = None,
      formatXLabel = None, ix = None, isNumericalData = Some True, linePathEffect = None,
      chartBounds = sample_bounds\<rparr>"


definition sample_ix :: "InputDatum list obj" where
  "sample_ix = (Given 7, [Str ''a'', Str ''b'', Str ''c''])"

definition narrow_bounds :: "ChartBounds obj" where
  "narrow_bounds = (Given 4, \<lparr>left = 0, right = 50, bottom = 200\<rparr>)"

text \<open>What is read off a list of fragments: the gridlines, and the \<open>x\<close> and text of the labels.\<close>

definition gridlines :: "Fragment list \<Rightarrow> SkPoint list option list" where
  "gridlines fs = map (\<lambda>f. map_option p_points (line f)) fs"

definition label_xs :: "Fragment list \<Rightarrow> real option list" where
  "label_xs fs = map (\<lambda>f. map_option t_x (label f)) fs"

definition label_texts :: "Fragment list \<Rightarrow> string option list" where
  "label_texts fs = map (\<lambda>f. map_option t_text (label f)) fs"

section \<open>Properties of the per-tick leaf\<close>

text \<open>The two parts of the fragment \<^verbatim>\<open>XAxle\<close> returns, and the fragment in both files.\<close>

lemma label_XAxle_return:
  "label (XAxle_return L p c a b) =
     (case font p of
        None \<Rightarrow> None
      | Some f \<Rightarrow>
          if labelWidth L p \<noteq> 0 \<and> c
          then Some \<lparr>t_translateY = rotateOffset L p,
                     t_rotate = (Math_PI / 180) * or_default (labelRotate p) 0,
                     t_origin = origin L p,
                     t_color = or_default (labelColor p) ''#000000'',
                     t_text = contentX L p,
                     t_font = f,
                     t_y = labelY p,
                     t_x = labelX L p,
                     t_matrix = matrix p\<rparr>
          else None)"
  by (simp add: XAxle_return_def)

lemma line_XAxle_return:
  "line (XAxle_return L p c a b) =
     (if or_default (lineWidth p) (hairlineWidth L) > 0
      then Some \<lparr>p_points = [a, b],
                 p_color = or_default (lineColor p) ''hsla(0, 0%, 0%, 0.25)'',
                 p_strokeWidth = or_default (lineWidth p) (hairlineWidth L),
                 p_children = linePathEffect p,
                 p_matrix = matrix p\<rparr>
      else None)"
  by (simp add: XAxle_return_def)

lemma fst_XAxle:
  "fst (XAxle L p st) =
     XAxle_return L p (canFitLabelContent L p)
       (fst (useMemo (p1_memo st)
          (\<lambda>_. vec (call (snd (xScale p)) (tick p)) (call (snd (yScale p)) (y2 p))) (tick p)))
       (fst (useMemo (p2_memo st)
          (\<lambda>_. vec (call (snd (xScale p)) (tick p)) (call (snd (yScale p)) (y1 p))) (tick p)))"
  by (simp add: XAxle_def Let_def split: prod.splits)

lemma fst_XAxle_0:
  "fst (XAxle_0 L p st) =
     XAxle_return L p (canFitLabelContent_0 L p)
       (fst (useMemo (p1_memo st)
          (\<lambda>_. vec (call (snd (xScale p)) (tick p)) (call (snd (yScale p)) (y2 p)))
          (tick p, fst (xScale p), y2 p, fst (yScale p))))
       (fst (useMemo (p2_memo st)
          (\<lambda>_. vec (call (snd (xScale p)) (tick p)) (call (snd (yScale p)) (y1 p)))
          (tick p, fst (xScale p), y1 p, fst (yScale p))))"
  by (simp add: XAxle_0_def Let_def split: prod.splits)


lemmas sample_defs = sample_props_def sample_lib_def sample_xScale_def sample_yScale_def
  sample_font_def sample_bounds_def sample_zoom_def sample_matrix_def

lemmas axle_defs = XAxle_props_def XAxis_y1_def XAxis_y2_def XAxis_fontSize_def
  fst_XAxle fst_XAxle_0 label_XAxle_return line_XAxle_return useMemo_def mounted_def vec_def
  labelY_def labelX_def labelWidth_def contentX_def val_def canFitLabelContent_def
  canFitLabelContent_0_def origin_def rotateOffset_def origin_rotateOffset_def

text \<open>
  Claim C5. The baseline of the label, \<open>labelY\<close>, in the four cases of \<open>axisSide\<close> and
  \<open>labelPosition\<close> (with their defaults \<open>bottom\<close> and \<open>outset\<close>, and the default 2 of
  \<open>labelOffset\<close>): bottom and outset gives \<open>chartBounds.bottom + labelOffset + fontSize\<close>,
  bottom and inset gives \<open>yScale(y2) - labelOffset\<close>, top and outset gives
  \<open>yScale(y1) - labelOffset\<close>, top and inset gives \<open>yScale(y1) + fontSize + labelOffset\<close>.
  It is the \<open>y\<close> of the text drawn, in both files.
\<close>

theorem labelY_cases:
  "(or_default (axisSide p) Bottom = Bottom \<and> or_default (labelPosition p) Outset = Outset \<longrightarrow>
      labelY p = bottom (snd (chartBounds p)) + or_default (labelOffset p) 2 + fontSize p) \<and>
   (or_default (axisSide p) Bottom = Bottom \<and> or_default (labelPosition p) Outset = Inset \<longrightarrow>
      labelY p = call (snd (yScale p)) (y2 p) - or_default (labelOffset p) 2) \<and>
   (or_default (axisSide p) Bottom = Top \<and> or_default (labelPosition p) Outset = Outset \<longrightarrow>
      labelY p = call (snd (yScale p)) (y1 p) - or_default (labelOffset p) 2) \<and>
   (or_default (axisSide p) Bottom = Top \<and> or_default (labelPosition p) Outset = Inset \<longrightarrow>
      labelY p = call (snd (yScale p)) (y1 p) + fontSize p + or_default (labelOffset p) 2) \<and>
   (\<forall>t. label (fst (XAxle L p st)) = Some t \<longrightarrow> t_y t = labelY p) \<and>
   (\<forall>t. label (fst (XAxle_0 L p st0)) = Some t \<longrightarrow> t_y t = labelY p)"
proof -
  have side: "or_default (axisSide p) Bottom = Top \<longleftrightarrow> or_default (axisSide p) Bottom \<noteq> Bottom"
    by (cases "or_default (axisSide p) Bottom") simp_all
  have pos: "or_default (labelPosition p) Outset = Inset \<longleftrightarrow>
      or_default (labelPosition p) Outset \<noteq> Outset"
    by (cases "or_default (labelPosition p) Outset") simp_all
  have formula: "labelY p =
      (if or_default (axisSide p) Bottom = Bottom
       then if or_default (labelPosition p) Outset = Outset
            then bottom (snd (chartBounds p)) + or_default (labelOffset p) 2 + fontSize p
            else call (snd (yScale p)) (y2 p) - or_default (labelOffset p) 2
       else if or_default (labelPosition p) Outset = Outset
            then call (snd (yScale p)) (y1 p) - or_default (labelOffset p) 2
            else call (snd (yScale p)) (y1 p) + fontSize p + or_default (labelOffset p) 2)"
    by (simp add: labelY_def side pos)
  have drawn: "\<forall>t. label (fst (XAxle L p st)) = Some t \<longrightarrow> t_y t = labelY p"
    by (auto simp: fst_XAxle label_XAxle_return split: option.splits if_splits)
  have drawn_0: "\<forall>t. label (fst (XAxle_0 L p st0)) = Some t \<longrightarrow> t_y t = labelY p"
    by (auto simp: fst_XAxle_0 label_XAxle_return split: option.splits if_splits)
  from formula drawn drawn_0 show ?thesis
    by (simp add: side pos)
qed

theorem labelY_cases_witness:
  "labelY (XAxle_props sample_props sample_xScale 2) = 200 + 2 + 12 \<and>
   labelY (XAxle_props (sample_props\<lparr>labelPosition := Some Inset\<rparr>) sample_xScale 2) = 0 - 2 \<and>
   labelY (XAxle_props (sample_props\<lparr>axisSide := Some Top\<rparr>) sample_xScale 2) = 200 - 2 \<and>
   labelY (XAxle_props (sample_props\<lparr>axisSide := Some Top, labelPosition := Some Inset\<rparr>)
     sample_xScale 2) = 200 + 12 + 2 \<and>
   map_option t_y (label (fst (XAxle sample_lib (XAxle_props sample_props sample_xScale 2) mounted)))
     = Some 214 \<and>
   map_option t_y (label (fst (XAxle_0 sample_lib (XAxle_props sample_props sample_xScale 2) mounted)))
     = Some 214"
  using
    labelY_cases [of "XAxle_props sample_props sample_xScale 2" sample_lib mounted mounted]
    labelY_cases [of "XAxle_props (sample_props\<lparr>labelPosition := Some Inset\<rparr>) sample_xScale 2"
      sample_lib mounted mounted]
    labelY_cases [of "XAxle_props (sample_props\<lparr>axisSide := Some Top\<rparr>) sample_xScale 2"
      sample_lib mounted mounted]
    labelY_cases [of "XAxle_props (sample_props\<lparr>axisSide := Some Top, labelPosition := Some Inset\<rparr>)
      sample_xScale 2" sample_lib mounted mounted]
  by (simp add: sample_defs axle_defs)



text \<open>
  Claim C9. The gridline is emitted exactly when \<open>lineWidth > 0\<close> (the default of
  \<open>lineWidth\<close> being the hairline width). A label is emitted only when there is a font and
  the measured width is not \<open>0\<close>: a label of width \<open>0\<close> is never drawn, in both files.
\<close>

theorem rendering_guards:
  "(line (fst (XAxle L p st)) \<noteq> None \<longleftrightarrow> 0 < or_default (lineWidth p) (hairlineWidth L)) \<and>
   (line (fst (XAxle_0 L p st0)) \<noteq> None \<longleftrightarrow> 0 < or_default (lineWidth p) (hairlineWidth L)) \<and>
   (label (fst (XAxle L p st)) \<noteq> None \<longrightarrow> font p \<noteq> None \<and> labelWidth L p \<noteq> 0) \<and>
   (label (fst (XAxle_0 L p st0)) \<noteq> None \<longrightarrow> font p \<noteq> None \<and> labelWidth L p \<noteq> 0) \<and>
   (labelWidth L p = 0 \<longrightarrow>
      label (fst (XAxle L p st)) = None \<and> label (fst (XAxle_0 L p st0)) = None)"
  by (auto simp: fst_XAxle fst_XAxle_0 label_XAxle_return line_XAxle_return
      split: option.splits)

theorem rendering_guards_witness:
  "labelWidth sample_lib
     (XAxle_props (sample_props\<lparr>formatXLabel := Some (Given 6, \<lambda>d. [])\<rparr>) sample_xScale 2) = 0 \<and>
   canFitLabelContent sample_lib
     (XAxle_props (sample_props\<lparr>formatXLabel := Some (Given 6, \<lambda>d. [])\<rparr>) sample_xScale 2) \<and>
   label (fst (XAxle sample_lib
     (XAxle_props (sample_props\<lparr>formatXLabel := Some (Given 6, \<lambda>d. [])\<rparr>) sample_xScale 2)
     mounted)) = None \<and>
   label (fst (XAxle_0 sample_lib
     (XAxle_props (sample_props\<lparr>formatXLabel := Some (Given 6, \<lambda>d. [])\<rparr>) sample_xScale 2)
     mounted)) = None \<and>
   line (fst (XAxle sample_lib
     (XAxle_props (sample_props\<lparr>formatXLabel := Some (Given 6, \<lambda>d. [])\<rparr>) sample_xScale 2)
     mounted)) \<noteq> None \<and>
   line (fst (XAxle sample_lib (XAxle_props (sample_props\<lparr>lineWidth := Some 0\<rparr>) sample_xScale 2)
     mounted)) = None \<and>
   label (fst (XAxle sample_lib (XAxle_props sample_props sample_xScale 2) mounted)) \<noteq> None"
  using
    rendering_guards [of sample_lib
      "XAxle_props (sample_props\<lparr>formatXLabel := Some (Given 6, \<lambda>d. [])\<rparr>) sample_xScale 2"
      mounted mounted]
    rendering_guards [of sample_lib
      "XAxle_props (sample_props\<lparr>lineWidth := Some 0\<rparr>) sample_xScale 2" mounted mounted]
    rendering_guards [of sample_lib "XAxle_props sample_props sample_xScale 2" mounted mounted]
  by (simp add: sample_defs axle_defs)

text \<open>
  Claim C10. When \<open>isNumericalData\<close> is falsy the label value is \<open>ix[tick]\<close>: the element
  at \<open>tick\<close> when \<open>tick\<close> is an index of \<open>ix\<close>, and \<^verbatim>\<open>undefined\<close> for every other tick
  (negative, too large or not an integer); the default formatter then gives the text
  \<^verbatim>\<open>"undefined"\<close>.
\<close>

theorem label_value_lookup:
  "\<not> truthy (isNumericalData p) \<longrightarrow>
     (\<forall>i. i < length (or_default (map_option snd (ix p)) []) \<and> tick p = real i \<longrightarrow>
        val p = or_default (map_option snd (ix p)) [] ! i) \<and>
     ((\<nexists>i. i < length (or_default (map_option snd (ix p)) []) \<and> tick p = real i) \<longrightarrow>
        val p = Undefined \<and> (formatXLabel p = None \<longrightarrow> contentX L p = ''undefined''))"
proof (intro impI conjI allI)
  fix i
  assume "\<not> truthy (isNumericalData p)"
    and "i < length (or_default (map_option snd (ix p)) []) \<and> tick p = real i"
  then show "val p = or_default (map_option snd (ix p)) [] ! i"
    by (simp add: val_def array_get_def)
next
  assume num: "\<not> truthy (isNumericalData p)"
    and none: "\<nexists>i. i < length (or_default (map_option snd (ix p)) []) \<and> tick p = real i"
  have "\<not> (0 \<le> tick p \<and> tick p < real (length (or_default (map_option snd (ix p)) [])) \<and>
      real_of_int \<lfloor>tick p\<rfloor> = tick p)"
  proof
    assume a: "0 \<le> tick p \<and> tick p < real (length (or_default (map_option snd (ix p)) [])) \<and>
      real_of_int \<lfloor>tick p\<rfloor> = tick p"
    then have "tick p = real (nat \<lfloor>tick p\<rfloor>)"
      by (metis of_nat_nat zero_le_floor)
    moreover from a this have "nat \<lfloor>tick p\<rfloor> < length (or_default (map_option snd (ix p)) [])"
      by linarith
    ultimately show False using none by blast
  qed
  then have "array_get (or_default (map_option snd (ix p)) []) (tick p) = Undefined"
    unfolding array_get_def by (rule if_not_P)
  then show u: "val p = Undefined"
    using num by (simp add: val_def)
  show "contentX L p = ''undefined''" if "formatXLabel p = None"
    using that u by (simp add: contentX_def)
qed

theorem label_value_lookup_witness:
  "val (XAxle_props (sample_props\<lparr>isNumericalData := None, ix := Some sample_ix\<rparr>) sample_xScale 1)
     = Str ''b'' \<and>
   val (XAxle_props (sample_props\<lparr>isNumericalData := None, ix := Some sample_ix\<rparr>) sample_xScale 3)
     = Undefined \<and>
   contentX sample_lib
     (XAxle_props (sample_props\<lparr>isNumericalData := None, ix := Some sample_ix\<rparr>) sample_xScale 3)
     = ''undefined'' \<and>
   contentX sample_lib
     (XAxle_props (sample_props\<lparr>isNumericalData := None, ix := Some sample_ix\<rparr>) sample_xScale (5 / 2))
     = ''undefined'' \<and>
   contentX sample_lib
     (XAxle_props (sample_props\<lparr>isNumericalData := None, ix := Some sample_ix\<rparr>) sample_xScale (- 1))
     = ''undefined'' \<and>
   contentX sample_lib
     (XAxle_props (sample_props\<lparr>isNumericalData := None\<rparr>) sample_xScale 0)
     = ''undefined''"
proof -
  have half: "\<nexists>i. i < length [Str ''a'', Str ''b'', Str ''c''] \<and> (5 / 2 :: real) = real i"
  proof
    assume "\<exists>i. i < length [Str ''a'', Str ''b'', Str ''c''] \<and> (5 / 2 :: real) = real i"
    then obtain i :: nat where "(5 / 2 :: real) = real i" by blast
    then have "real (2 * i) = real 5" by simp
    then have "2 * i = 5" by (simp only: of_nat_eq_iff)
    then show False by presburger
  qed
  show ?thesis
    using half
      label_value_lookup [of "XAxle_props (sample_props\<lparr>isNumericalData := None, ix := Some sample_ix\<rparr>)
        sample_xScale 1" sample_lib]
      label_value_lookup [of "XAxle_props (sample_props\<lparr>isNumericalData := None, ix := Some sample_ix\<rparr>)
        sample_xScale 3" sample_lib]
      label_value_lookup [of "XAxle_props (sample_props\<lparr>isNumericalData := None, ix := Some sample_ix\<rparr>)
        sample_xScale (5 / 2)" sample_lib]
      label_value_lookup [of "XAxle_props (sample_props\<lparr>isNumericalData := None, ix := Some sample_ix\<rparr>)
        sample_xScale (- 1)" sample_lib]
      label_value_lookup [of "XAxle_props (sample_props\<lparr>isNumericalData := None\<rparr>)
        sample_xScale 0" sample_lib]
    by (simp add: sample_defs sample_ix_def XAxle_props_def)
qed

text \<open>
  Claim C6. When \<open>labelRotate\<close> is given and not \<open>0\<close>, the origin of the rotation is the
  horizontal centre of the label, at \<open>labelY\<close> for a bottom axis and at
  \<open>labelY - fontSize / 4\<close> for a top axis, and the offset is
  \<open>\<bar>(labelWidth / 2) * getOffsetFromAngle(labelRotate)\<bar>\<close>, positive for (bottom, outset) and
  (top, inset) and negated for (bottom, inset) and (top, outset). When \<open>labelRotate\<close> is
  absent or \<open>0\<close>, the offset is \<open>0\<close>, the origin is \<^verbatim>\<open>undefined\<close> and the angle of the text
  is \<open>0\<close>. The text drawn carries this offset, origin and angle, in both files.
\<close>

theorem rotation_placement:
  "(\<forall>r. labelRotate p = Some r \<and> r \<noteq> 0 \<longrightarrow>
      origin L p =
        Some (labelX L p + labelWidth L p / 2,
              if or_default (axisSide p) Bottom = Bottom then labelY p
              else labelY p - fontSize p / 4) \<and>
      \<bar>rotateOffset L p\<bar> = \<bar>(labelWidth L p / 2) * getOffsetFromAngle L r\<bar> \<and>
      rotateOffset L p =
        (if (or_default (axisSide p) Bottom, or_default (labelPosition p) Outset)
              \<in> {(Bottom, Outset), (Top, Inset)}
         then \<bar>(labelWidth L p / 2) * getOffsetFromAngle L r\<bar>
         else - \<bar>(labelWidth L p / 2) * getOffsetFromAngle L r\<bar>)) \<and>
   (labelRotate p = None \<or> labelRotate p = Some 0 \<longrightarrow>
      rotateOffset L p = 0 \<and> origin L p = None \<and>
      (Math_PI / 180) * or_default (labelRotate p) 0 = 0) \<and>
   (\<forall>t. label (fst (XAxle L p st)) = Some t \<longrightarrow>
      t_translateY t = rotateOffset L p \<and> t_origin t = origin L p \<and>
      t_rotate t = (Math_PI / 180) * or_default (labelRotate p) 0) \<and>
   (\<forall>t. label (fst (XAxle_0 L p st0)) = Some t \<longrightarrow>
      t_translateY t = rotateOffset L p \<and> t_origin t = origin L p \<and>
      t_rotate t = (Math_PI / 180) * or_default (labelRotate p) 0)"
proof -
  have rotated: "\<forall>r. labelRotate p = Some r \<and> r \<noteq> 0 \<longrightarrow>
      origin L p =
        Some (labelX L p + labelWidth L p / 2,
              if or_default (axisSide p) Bottom = Bottom then labelY p
              else labelY p - fontSize p / 4) \<and>
      \<bar>rotateOffset L p\<bar> = \<bar>(labelWidth L p / 2) * getOffsetFromAngle L r\<bar> \<and>
      rotateOffset L p =
        (if (or_default (axisSide p) Bottom, or_default (labelPosition p) Outset)
              \<in> {(Bottom, Outset), (Top, Inset)}
         then \<bar>(labelWidth L p / 2) * getOffsetFromAngle L r\<bar>
         else - \<bar>(labelWidth L p / 2) * getOffsetFromAngle L r\<bar>)"
    by (cases "or_default (axisSide p) Bottom"; cases "or_default (labelPosition p) Outset")
      (simp_all add: origin_def rotateOffset_def origin_rotateOffset_def vec_def)
  have plain: "labelRotate p = None \<or> labelRotate p = Some 0 \<longrightarrow>
      rotateOffset L p = 0 \<and> origin L p = None \<and>
      (Math_PI / 180) * or_default (labelRotate p) 0 = 0"
    by (auto simp: origin_def rotateOffset_def origin_rotateOffset_def)
  have drawn: "\<forall>t. label (fst (XAxle L p st)) = Some t \<longrightarrow>
      t_translateY t = rotateOffset L p \<and> t_origin t = origin L p \<and>
      t_rotate t = (Math_PI / 180) * or_default (labelRotate p) 0"
    by (auto simp: fst_XAxle label_XAxle_return split: option.splits if_splits)
  have drawn_0: "\<forall>t. label (fst (XAxle_0 L p st0)) = Some t \<longrightarrow>
      t_translateY t = rotateOffset L p \<and> t_origin t = origin L p \<and>
      t_rotate t = (Math_PI / 180) * or_default (labelRotate p) 0"
    by (auto simp: fst_XAxle_0 label_XAxle_return split: option.splits if_splits)
  from rotated plain drawn drawn_0 show ?thesis
    by blast
qed

theorem rotation_placement_witness:
  "origin sample_lib (XAxle_props (sample_props\<lparr>labelRotate := Some 90\<rparr>) sample_xScale 2)
     = Some (20, 214) \<and>
   rotateOffset sample_lib (XAxle_props (sample_props\<lparr>labelRotate := Some 90\<rparr>) sample_xScale 2) = 3 \<and>
   origin sample_lib
     (XAxle_props (sample_props\<lparr>labelRotate := Some 90, axisSide := Some Top\<rparr>) sample_xScale 2)
     = Some (20, 195) \<and>
   rotateOffset sample_lib
     (XAxle_props (sample_props\<lparr>labelRotate := Some 90, axisSide := Some Top\<rparr>) sample_xScale 2)
     = - 3 \<and>
   origin sample_lib (XAxle_props sample_props sample_xScale 2) = None \<and>
   rotateOffset sample_lib (XAxle_props sample_props sample_xScale 2) = 0 \<and>
   map_option t_translateY
     (label (fst (XAxle sample_lib
        (XAxle_props (sample_props\<lparr>labelRotate := Some 90\<rparr>) sample_xScale 2) mounted))) = Some 3"
proof -
  let ?p = "XAxle_props (sample_props\<lparr>labelRotate := Some 90\<rparr>) sample_xScale 2"
  let ?q = "XAxle_props (sample_props\<lparr>labelRotate := Some 90, axisSide := Some Top\<rparr>) sample_xScale 2"
  let ?u = "XAxle_props sample_props sample_xScale 2"
  have vs:
    "labelX sample_lib ?p = 17" "labelWidth sample_lib ?p = 6" "labelY ?p = 214"
    "labelX sample_lib ?q = 17" "labelWidth sample_lib ?q = 6" "labelY ?q = 198"
    "fontSize ?q = 12" "getOffsetFromAngle sample_lib 90 = 1"
    by (simp_all add: sample_defs XAxle_props_def XAxis_y1_def XAxis_y2_def XAxis_fontSize_def
        labelY_def labelX_def labelWidth_def contentX_def val_def)
  have p: "labelRotate ?p = Some 90 \<and> (90::real) \<noteq> 0"
    "or_default (axisSide ?p) Bottom = Bottom" "or_default (labelPosition ?p) Outset = Outset"
    by (simp_all add: XAxle_props_def sample_props_def)
  have q: "labelRotate ?q = Some 90 \<and> (90::real) \<noteq> 0"
    "or_default (axisSide ?q) Bottom = Top" "or_default (labelPosition ?q) Outset = Outset"
    by (simp_all add: XAxle_props_def sample_props_def)
  have u: "labelRotate ?u = None \<or> labelRotate ?u = Some 0"
    by (simp add: XAxle_props_def sample_props_def)
  have drawn: "label (fst (XAxle sample_lib ?p mounted)) \<noteq> None"
    by (simp add: sample_defs axle_defs)
  from rotation_placement [of ?p sample_lib mounted mounted] p
  have 1: "origin sample_lib ?p = Some (20, 214) \<and> rotateOffset sample_lib ?p = 3"
    by (simp add: vs)
  from rotation_placement [of ?p sample_lib mounted mounted] drawn 1
  have 2: "map_option t_translateY (label (fst (XAxle sample_lib ?p mounted))) = Some 3"
    by auto
  from rotation_placement [of ?q sample_lib mounted mounted] q
  have 3: "origin sample_lib ?q = Some (20, 195) \<and> rotateOffset sample_lib ?q = - 3"
    by (simp add: vs)
  from rotation_placement [of ?u sample_lib mounted mounted] u
  have 4: "origin sample_lib ?u = None \<and> rotateOffset sample_lib ?u = 0"
    by blast
  from 1 2 3 4 show ?thesis by simp
qed

text \<open>
  Claim C1, as amended. In \<^verbatim>\<open>XAxis.tsx\<close> the label is drawn exactly when there is a font,
  the measured width is not \<open>0\<close>, the scaled tick lies within \<open>chartBounds.left\<close> and
  \<open>chartBounds.right\<close>, and the label's right edge is left of \<open>chartBounds.right\<close> (y axis
  on the left) or its left edge is right of \<open>chartBounds.left\<close> (y axis on the right). In
  \<^verbatim>\<open>part_000\<close> the fit test is switched off: the label is drawn exactly when there is a
  font and the measured width is not \<open>0\<close>, wherever the tick lies.
\<close>

theorem label_fit:
  "(label (fst (XAxle L p st)) \<noteq> None \<longleftrightarrow>
      font p \<noteq> None \<and> labelWidth L p \<noteq> 0 \<and>
      left (snd (chartBounds p)) \<le> call (snd (xScale p)) (tick p) \<and>
      call (snd (xScale p)) (tick p) \<le> right (snd (chartBounds p)) \<and>
      (case or_default (yAxisSide p) Left of
         Left \<Rightarrow> labelX L p + labelWidth L p < right (snd (chartBounds p))
       | Right \<Rightarrow> left (snd (chartBounds p)) < labelX L p)) \<and>
   (label (fst (XAxle_0 L p st0)) \<noteq> None \<longleftrightarrow> font p \<noteq> None \<and> labelWidth L p \<noteq> 0)"
  by (auto simp: fst_XAxle fst_XAxle_0 label_XAxle_return canFitLabelContent_def
      canFitLabelContent_0_def split: option.splits YAxisSide.splits)

theorem label_fit_witness:
  "label (fst (XAxle sample_lib (XAxle_props sample_props sample_xScale 2) mounted)) \<noteq> None \<and>
   label (fst (XAxle sample_lib (XAxle_props sample_props sample_xScale 10) mounted)) = None \<and>
   label (fst (XAxle_0 sample_lib (XAxle_props sample_props sample_xScale 10) mounted)) \<noteq> None"
  using
    label_fit [of sample_lib "XAxle_props sample_props sample_xScale 2" mounted mounted]
    label_fit [of sample_lib "XAxle_props sample_props sample_xScale 10" mounted mounted]
  by (simp add: sample_defs axle_defs)

text \<open>
  With chart bounds that end at \<open>50\<close>, \<^verbatim>\<open>XAxis.tsx\<close> draws the labels of the ticks 0, 2 and
  4 only, and \<^verbatim>\<open>part_000\<close> draws all six, also those of ticks scaled beyond the bounds.
\<close>

theorem label_fit_counterexample:
  "label_texts (fst (XAxis_0 sample_lib (sample_props\<lparr>chartBounds := narrow_bounds\<rparr>) XAxis_mounted_0))
     = [Some ''0'', Some ''2'', Some ''4'', Some ''6'', Some ''8'', Some ''10''] \<and>
   label_texts (fst (XAxis sample_lib (sample_props\<lparr>chartBounds := narrow_bounds\<rparr>) XAxis_mounted))
     = [Some ''0'', Some ''2'', Some ''4'', None, None, None] \<and>
   right (snd narrow_bounds) < call (snd sample_xScale) 8"
  by code_simp

section \<open>Properties of the axis container\<close>

text \<open>
  The first render of a newly mounted axis: every cell is empty, so every memoised
  function is evaluated, and every \<^verbatim>\<open>XAxle\<close> is mounted.
\<close>

lemma render_axles_mount:
  "fst (render_axles child fresh Map.empty ps) = map (\<lambda>p. fst (child p fresh)) ps"
  by (induction ps) (simp_all add: Let_def case_prod_beta)


lemma fst_XAxis_mounted:
  "fst (XAxis L P XAxis_mounted) =
     map (\<lambda>t. fst (XAxle L (XAxle_props P (XAxis_xScale L P 0) t) mounted))
       (snd (xTicksNormalized L P 0))"
  by (simp add: XAxis_def XAxis_mounted_def useMemo_def Let_def render_axles_mount comp_def
      case_prod_beta)


lemma fst_XAxis_mounted_0:
  "fst (XAxis_0 L P XAxis_mounted_0) =
     map (\<lambda>t. fst (XAxle_0 L (XAxle_props P (xScale P) t) mounted))
       (snd (xTicksNormalized_0 L P 0))"
  by (simp add: XAxis_0_def XAxis_mounted_0_def useMemo_def Let_def render_axles_mount comp_def
      XAxis_xScale_0_def case_prod_beta)

lemma matrixRef_XAxis_0: "matrixRef (snd (XAxis_0 L P st)) = matrixRef st"
  by (simp add: XAxis_0_def Let_def case_prod_beta)

lemma points_mounted:
  "map_option p_points (line (fst (XAxle L p mounted))) =
     (if 0 < or_default (lineWidth p) (hairlineWidth L)
      then Some [(call (snd (xScale p)) (tick p), call (snd (yScale p)) (y2 p)),
                 (call (snd (xScale p)) (tick p), call (snd (yScale p)) (y1 p))]
      else None)"
  "map_option p_points (line (fst (XAxle_0 L p mounted))) =
     (if 0 < or_default (lineWidth p) (hairlineWidth L)
      then Some [(call (snd (xScale p)) (tick p), call (snd (yScale p)) (y2 p)),
                 (call (snd (xScale p)) (tick p), call (snd (yScale p)) (y1 p))]
      else None)"
  by (simp_all add: fst_XAxle fst_XAxle_0 line_XAxle_return useMemo_def mounted_def vec_def)











text \<open>
  The gridline of an \<^verbatim>\<open>XAxle\<close>. When it is mounted, the two points are
  \<open>(xScale(tick), yScale(y2))\<close> and \<open>(xScale(tick), yScale(y1))\<close> in both files (lemma
  \<open>points_mounted\<close>, with \<open>y1\<close> and \<open>y2\<close> of \<open>XAxis_y1\<close> and \<open>XAxis_y2\<close>). In a later render,
  \<^verbatim>\<open>XAxis.tsx\<close> returns the points it has cached under \<open>tick\<close>, whatever the scales are
  now; \<^verbatim>\<open>part_000\<close> computes them again when a scale or \<open>y1\<close>, \<open>y2\<close> has changed.
\<close>

lemma points_cached:
  assumes "p1_memo st = Some (tick p, v1)" and "p2_memo st = Some (tick p, v2)"
  shows "map_option p_points (line (fst (XAxle L p st))) =
     (if 0 < or_default (lineWidth p) (hairlineWidth L) then Some [v1, v2] else None)"
  using assms by (simp add: fst_XAxle line_XAxle_return useMemo_def)

lemma points_computed_0:
  assumes "\<forall>v. p1_memo st \<noteq> Some ((tick p, fst (xScale p), y2 p, fst (yScale p)), v)"
    and "\<forall>v. p2_memo st \<noteq> Some ((tick p, fst (xScale p), y1 p, fst (yScale p)), v)"
  shows "map_option p_points (line (fst (XAxle_0 L p st))) =
     (if 0 < or_default (lineWidth p) (hairlineWidth L)
      then Some [(call (snd (xScale p)) (tick p), call (snd (yScale p)) (y2 p)),
                 (call (snd (xScale p)) (tick p), call (snd (yScale p)) (y1 p))]
      else None)"
  using assms
  by (cases "p1_memo st"; cases "p2_memo st")
    (auto simp: fst_XAxle_0 line_XAxle_return useMemo_def vec_def)

text \<open>
  Claim C4, on \<^verbatim>\<open>XAxis.tsx\<close>. The axis is rendered without zoom and then again with a
  zoom transform of factor 2. The ticks are the same, so every \<^verbatim>\<open>XAxle\<close> keeps its cells:
  the gridline of the tick 2 stays at \<open>x = 20\<close> although \<open>xScale(2)\<close> is now 40, and the
  label of the same tick is centred on 40.
\<close>

theorem stale_gridline:
  "gridlines (fst (XAxis sample_lib (sample_props\<lparr>zoom := Some sample_zoom\<rparr>)
      (snd (XAxis sample_lib sample_props XAxis_mounted))))
     = [Some [(0, 0), (0, 200)], Some [(20, 0), (20, 200)], Some [(40, 0), (40, 200)],
        Some [(60, 0), (60, 200)], Some [(80, 0), (80, 200)], Some [(100, 0), (100, 200)]] \<and>
   map (call (snd (XAxis_xScale sample_lib (sample_props\<lparr>zoom := Some sample_zoom\<rparr>) 2)))
     (snd (xTicksNormalized sample_lib (sample_props\<lparr>zoom := Some sample_zoom\<rparr>) 2))
     = [0, 40, 80, 120, 160, 200] \<and>
   label_xs (fst (XAxis sample_lib (sample_props\<lparr>zoom := Some sample_zoom\<rparr>)
      (snd (XAxis sample_lib sample_props XAxis_mounted))))
     = [Some (- 3), Some 37, Some 77, None, None, None]"
  by code_simp

text \<open>
  \<^verbatim>\<open>part_000\<close> after a first render, the reaction to the matrix of the same transform, and
  a render with a new scale object: gridlines and labels both follow the rescaled scale.
\<close>

lemma gridline_follows_scale_0:
  "(let P = sample_props\<lparr>matrix := Some sample_matrix\<rparr>;
        s = animatedReaction P (snd (XAxis_0 sample_lib P XAxis_mounted_0));
        out = fst (XAxis_0 sample_lib (P\<lparr>xScale := (Given 11, snd sample_xScale)\<rparr>) s)
    in gridlines out
         = [Some [(0, 0), (0, 200)], Some [(40, 0), (40, 200)], Some [(80, 0), (80, 200)],
            Some [(120, 0), (120, 200)], Some [(160, 0), (160, 200)], Some [(200, 0), (200, 200)]] \<and>
       label_xs out = [Some (- 3), Some 37, Some 77, Some 117, Some 157, Some 194])"
  by code_simp

text \<open>
  Claim C8, as amended. The first render of a newly mounted axis is a function of the
  parameters of that render alone: the fragments are those of the tick set, with the
  gridline and the label of each tick placed by the scale of that render. The component
  owns state that lives on from one render to the next: \<open>matrixRef\<close> keeps its value through
  a render and is set by the reaction to the matrix (and the cells of \<^verbatim>\<open>useMemo\<close> keep the
  values of earlier renders), so that a later render depends on this state too.
\<close>

theorem first_render:
  "fst (XAxis L P XAxis_mounted) =
     map (\<lambda>t. XAxle_return L (XAxle_props P (XAxis_xScale L P 0) t)
                 (canFitLabelContent L (XAxle_props P (XAxis_xScale L P 0) t))
                 (vec (call (snd (XAxis_xScale L P 0)) t) (call (snd (yScale P)) (XAxis_y2 P)))
                 (vec (call (snd (XAxis_xScale L P 0)) t) (call (snd (yScale P)) (XAxis_y1 P))))
       (snd (xTicksNormalized L P 0)) \<and>
   fst (XAxis_0 L P XAxis_mounted_0) =
     map (\<lambda>t. XAxle_return L (XAxle_props P (xScale P) t) True
                 (vec (call (snd (xScale P)) t) (call (snd (yScale P)) (XAxis_y2 P)))
                 (vec (call (snd (xScale P)) t) (call (snd (yScale P)) (XAxis_y1 P))))
       (snd (xTicksNormalized_0 L P 0)) \<and>
   matrixRef (snd (XAxis_0 L P st)) = matrixRef st \<and>
   matrixRef (animatedReaction P st) = map_option snd (matrix P)"
  by (simp add: fst_XAxis_mounted fst_XAxis_mounted_0 matrixRef_XAxis_0 animatedReaction_def
      fst_XAxle fst_XAxle_0 useMemo_def mounted_def canFitLabelContent_0_def XAxle_props_def)

theorem first_render_witness:
  "gridlines (fst (XAxis sample_lib sample_props XAxis_mounted))
     = [Some [(0, 0), (0, 200)], Some [(20, 0), (20, 200)], Some [(40, 0), (40, 200)],
        Some [(60, 0), (60, 200)], Some [(80, 0), (80, 200)], Some [(100, 0), (100, 200)]] \<and>
   label_xs (fst (XAxis_0 sample_lib sample_props XAxis_mounted_0))
     = [Some (- 3), Some 17, Some 37, Some 57, Some 77, Some 94]"
  using first_render [of sample_lib sample_props XAxis_mounted_0]
  by (simp add: gridlines_def label_xs_def line_XAxle_return label_XAxle_return
      xTicksNormalized_def xTicksNormalized_0_def XAxis_xScale_def DEFAULT_TICK_COUNT_def
      sample_defs axle_defs)

text \<open>
  Two renders of \<^verbatim>\<open>part_000\<close> with the same parameters and different gridlines: the first
  render; then the reaction stores the matrix, a render with another scale object
  follows, and a render with the parameters of the first places the gridlines by the
  rescaled scale.
\<close>

theorem statelessness_counterexample:
  "(let P = sample_props\<lparr>matrix := Some sample_matrix\<rparr>;
        s1 = snd (XAxis_0 sample_lib P XAxis_mounted_0);
        s2 = animatedReaction P s1;
        s3 = snd (XAxis_0 sample_lib (P\<lparr>xScale := (Given 11, snd sample_xScale)\<rparr>) s2)
    in gridlines (fst (XAxis_0 sample_lib P XAxis_mounted_0))
         = [Some [(0, 0), (0, 200)], Some [(20, 0), (20, 200)], Some [(40, 0), (40, 200)],
            Some [(60, 0), (60, 200)], Some [(80, 0), (80, 200)], Some [(100, 0), (100, 200)]] \<and>
       gridlines (fst (XAxis_0 sample_lib P s3))
         = [Some [(0, 0), (0, 200)], Some [(40, 0), (40, 200)], Some [(80, 0), (80, 200)],
            Some [(120, 0), (120, 200)], Some [(160, 0), (160, 200)], Some [(200, 0), (200, 200)]] \<and>
       label_xs (fst (XAxis_0 sample_lib P XAxis_mounted_0))
         = [Some (- 3), Some 17, Some 37, Some 57, Some 77, Some 94] \<and>
       label_xs (fst (XAxis_0 sample_lib P s3))
         = [Some (- 3), Some 37, Some 77, Some 117, Some 157, Some 194] \<and>
       matrixRef s1 = None \<and> matrixRef s3 = Some (snd sample_matrix))"
  by code_simp

end
